theory Spec2Isabelle
  imports Main "HOL-Library.Char_ord" "HOL-Library.List_Lexorder" "HOL-Library.Sublist"
begin

section \<open>Caregiver support: the rule-based analyser of \<open>app.py\<close>\<close>

text \<open>
  Python strings are modelled as HOL strings. The texts of the program are ASCII apart
  from five typographic marks, which are written here as their UTF-8 bytes. The character
  classes below are those of Python's \<open>str\<close> on the ASCII range, where the model is
  exact; a character above 127 is taken as a caseless symbol that is neither white space
  nor a word character.
\<close>

subsection \<open>Characters\<close>

definition nl :: string where
  "nl = [CHR 0x0A]"

definition rsquo :: string where  \<comment> \<open>U+2019, right single quotation mark\<close>
  "rsquo = [CHR 0xE2, CHR 0x80, CHR 0x99]"

definition mdash :: string where  \<comment> \<open>U+2014, em dash\<close>
  "mdash = [CHR 0xE2, CHR 0x80, CHR 0x94]"

definition ndash :: string where  \<comment> \<open>U+2013, en dash\<close>
  "ndash = [CHR 0xE2, CHR 0x80, CHR 0x93]"

definition ldquo :: string where  \<comment> \<open>U+201C, left double quotation mark\<close>
  "ldquo = [CHR 0xE2, CHR 0x80, CHR 0x9C]"

definition rdquo :: string where  \<comment> \<open>U+201D, right double quotation mark\<close>
  "rdquo = [CHR 0xE2, CHR 0x80, CHR 0x9D]"

text \<open>\<open>str.isspace\<close>, also the class \<open>\s\<close>: tab, line feed, vertical tab, form feed,
  carriage return, the four separators 0x1C to 0x1F, and the space.\<close>

definition is_space :: "char \<Rightarrow> bool" where
  "is_space c = (let n = (of_char c :: nat) in (9 \<le> n \<and> n \<le> 13) \<or> (28 \<le> n \<and> n \<le> 32))"

text \<open>The class \<open>\w\<close>: digits, letters and the underscore.\<close>

definition is_word :: "char \<Rightarrow> bool" where
  "is_word c = (let n = (of_char c :: nat) in
     (48 \<le> n \<and> n \<le> 57) \<or> (65 \<le> n \<and> n \<le> 90) \<or> n = 95 \<or> (97 \<le> n \<and> n \<le> 122))"

text \<open>\<open>str.lower\<close> on one character.\<close>

definition lower_chr :: "char \<Rightarrow> char" where
  "lower_chr c = (let n = (of_char c :: nat) in if 65 \<le> n \<and> n \<le> 90 then char_of (n + 32) else c)"

definition lower :: "string \<Rightarrow> string" where
  "lower s = map lower_chr s"

text \<open>\<open>str.strip()\<close>: white space removed at both ends.\<close>

definition strip :: "string \<Rightarrow> string" where
  "strip s = rev (dropWhile is_space (rev (dropWhile is_space s)))"

text \<open>\<open>sep.join(xs)\<close>.\<close>

fun join :: "string \<Rightarrow> string list \<Rightarrow> string" where
  "join sep [] = []"
| "join sep [x] = x"
| "join sep (x # y # ys) = x @ sep @ join sep (y # ys)"

subsection \<open>Regular expressions\<close>

text \<open>
  The patterns of the program use literals, alternation, grouping, \<open>\s*\<close> and \<open>\b\<close>
  only. A position in the text is the pair of whether the character before it is a word
  character (\<open>False\<close> at the start) and the text that remains. \<open>ends r p\<close> lists the
  positions where a match of \<open>r\<close> that starts at \<open>p\<close> can end, in the order in which the
  backtracking matcher tries them. All searches of the program pass \<open>re.IGNORECASE\<close>, so
  a literal character matches a character of the text when both have the same lower case.
\<close>

datatype regex =
    Lit string
  | WsStar
  | WordB
  | Cat "regex list"
  | Alt "regex list"

type_synonym pos = "bool \<times> string"

fun lit_at :: "string \<Rightarrow> pos \<Rightarrow> pos option" where
  "lit_at [] p = Some p"
| "lit_at (a # as) (w, []) = None"
| "lit_at (a # as) (w, c # cs) =
     (if lower_chr a = lower_chr c then lit_at as (is_word c, cs) else None)"

fun ws_star :: "pos \<Rightarrow> pos list" where
  "ws_star (w, []) = [(w, [])]"
| "ws_star (w, c # cs) =
     (if is_space c then ws_star (is_word c, cs) @ [(w, c # cs)] else [(w, c # cs)])"

fun word_b :: "pos \<Rightarrow> bool" where
  "word_b (w, []) = w"
| "word_b (w, c # cs) = (w \<noteq> is_word c)"

fun ends :: "regex \<Rightarrow> pos \<Rightarrow> pos list"
  and ends_cat :: "regex list \<Rightarrow> pos \<Rightarrow> pos list"
  and ends_alt :: "regex list \<Rightarrow> pos \<Rightarrow> pos list" where
  "ends (Lit s) p = (case lit_at s p of None \<Rightarrow> [] | Some q \<Rightarrow> [q])"
| "ends WsStar p = ws_star p"
| "ends WordB p = (if word_b p then [p] else [])"
| "ends (Cat rs) p = ends_cat rs p"
| "ends (Alt rs) p = ends_alt rs p"
| "ends_cat [] p = [p]"
| "ends_cat (r # rs) p = concat (map (ends_cat rs) (ends r p))"
| "ends_alt [] p = []"
| "ends_alt (r # rs) p = ends r p @ ends_alt rs p"

text \<open>\<open>re.search\<close>, as a truth value: some position of the text, the end included,
  starts a match.\<close>

fun search_from :: "regex \<Rightarrow> pos \<Rightarrow> bool" where
  "search_from r (w, []) = (ends r (w, []) \<noteq> [])"
| "search_from r (w, c # cs) = (ends r (w, c # cs) \<noteq> [] \<or> search_from r (is_word c, cs))"

definition re_search :: "regex \<Rightarrow> string \<Rightarrow> bool" where
  "re_search r text = search_from r (False, text)"

text \<open>\<open>\b(a|b|...)\b\<close> with the alternatives given.\<close>

definition words :: "regex list \<Rightarrow> regex" where
  "words alts = Cat [WordB, Alt alts, WordB]"

subsection \<open>The pattern tables\<close>

definition EMERGENCY_PATTERNS :: "(regex \<times> string) list" where
  "EMERGENCY_PATTERNS = [
    (words [Lit ''chest pain'', Lit ''pressure in chest'', Lit ''heart attack''],
       ''Possible chest-pain emergency''),
    (words [Lit ''trouble breathing'', Lit ''can't breathe'', Lit ''cannot breathe'',
            Lit ''shortness of breath'', Lit ''turning blue''],
       ''Breathing emergency''),
    (words [Lit ''stroke'', Lit ''face droop'', Lit ''slurred speech'', Lit ''arm weakness'',
            Lit ''FAST''],
       ''Possible stroke signs''),
    (words [Lit ''unconscious'', Lit ''unresponsive'', Lit ''won't wake'', Lit ''not waking''],
       ''Unresponsive person''),
    (words [Lit ''seizure'', Lit ''convulsion''],
       ''Seizure/convulsion''),
    (words [Lit ''heavy bleeding'', Lit ''won't stop bleeding'', Lit ''bleeding a lot''],
       ''Severe bleeding''),
    (words [Lit ''suicidal'', Lit ''kill myself'', Lit ''end my life'', Lit ''self harm''],
       ''Self-harm risk''),
    (words [Lit ''overdose'', Lit ''took too many pills'', Lit ''poisoned''],
       ''Possible overdose/poisoning'')]"

definition URGENT_PATTERNS :: "(regex \<times> string) list" where
  "URGENT_PATTERNS = [
    (words [Cat [Lit ''fever'', WsStar, Alt [Lit ''over'', Lit ''above''], WsStar, Lit ''103''],
            Cat [Lit ''fever'', WsStar, Lit ''103'']],
       ''High fever''),
    (words [Lit ''new confusion'', Lit ''sudden confusion'', Lit ''delirium'',
            Lit ''not making sense''],
       ''Sudden confusion''),
    (words [Lit ''fall'', Lit ''fell'',
            Cat [Lit ''hit '', Alt [Lit ''their'', Lit ''her'', Lit ''his''], Lit '' head''],
            Lit ''head injury''],
       ''Fall or head impact''),
    (words [Lit ''severe pain'', Lit ''worst pain''],
       ''Severe pain''),
    (words [Lit ''dehydrated'', Lit ''no urine'', Lit ''not peeing'', Lit ''dry mouth''],
       ''Possible dehydration'')]"

definition MEDICATION_MENTION :: regex where
  "MEDICATION_MENTION =
     words [Lit ''med'', Lit ''meds'', Lit ''medicine'', Lit ''medication'', Lit ''pill'',
            Lit ''dose'', Lit ''dosage'', Lit ''prescription'', Lit ''refill'']"

text \<open>The dictionary \<open>TOPIC_KEYWORDS\<close>, in insertion order, which is the order in which
  \<open>items()\<close> walks it.\<close>

definition TOPIC_KEYWORDS :: "(string \<times> regex list) list" where
  "TOPIC_KEYWORDS = [
    (''agitation_or_anxiety'',
       [words [Lit ''agitated'', Lit ''agitation'', Lit ''anxious'', Lit ''panic'',
               Lit ''restless'', Lit ''irritable'']]),
    (''sleep'',
       [words [Lit ''can't sleep'', Lit ''insomnia'', Lit ''sleeping all day'', Lit ''sleepy'']]),
    (''pain'',
       [words [Lit ''pain'', Lit ''hurts'', Lit ''ache'', Lit ''aching'']]),
    (''memory_or_confusion'',
       [words [Lit ''forgetful'', Lit ''memory'', Lit ''confused'', Lit ''confusion'',
               Lit ''dementia'', Lit ''delirium'']]),
    (''eating_drinking'',
       [words [Lit ''not eating'', Lit ''not drinking'', Lit ''won't eat'', Lit ''won't drink'',
               Lit ''loss of appetite'']]),
    (''caregiver_stress'',
       [words [Lit ''burnout'', Lit ''overwhelmed'', Lit ''exhausted'', Lit ''can't do this'',
               Lit ''no support'']]),
    (''safety'',
       [words [Lit ''wandering'', Lit ''left the stove on'', Lit ''unsafe'', Lit ''falls risk'',
               Lit ''choking'']]),
    (''mood'',
       [words [Lit ''depressed'', Lit ''hopeless'', Lit ''crying'', Lit ''sad'']])]"

definition GENERAL_STEPS :: "string list" where
  "GENERAL_STEPS = [
    ''Make sure the person is **safe right now** (remove hazards, ensure supervision if needed).'',
    ''Gather **facts**: when it started, what changed, triggers, what helped/worsened it.'',
    ''If symptoms are **new, severe, or worsening**, contact a licensed clinician for guidance.'',
    ''If there'' @ rsquo @ ''s any **immediate danger**, call your local emergency number.'']"

subsection \<open>The analyser\<close>

text \<open>\<open>(text or "").strip().lower()\<close>; on a string, \<open>text or ""\<close> is the string itself.\<close>

definition normalize_text :: "string \<Rightarrow> string" where
  "normalize_text text = lower (strip text)"

text \<open>The loop of \<open>find_matches\<close>: the labels of the patterns found, in table order.\<close>

fun find_matches :: "(regex \<times> string) list \<Rightarrow> string \<Rightarrow> string list" where
  "find_matches [] text = []"
| "find_matches ((pat, label) # patterns) text =
     (if re_search pat text then label # find_matches patterns text
      else find_matches patterns text)"

text \<open>The inner loop of \<open>detect_topics\<close> over the variants of one topic: it leaves at the
  first variant found (\<open>break\<close>) and then the topic is appended once.\<close>

fun variant_hit :: "regex list \<Rightarrow> string \<Rightarrow> bool" where
  "variant_hit [] text = False"
| "variant_hit (pat # pats) text = (if re_search pat text then True else variant_hit pats text)"

text \<open>The outer loop over the items of the dictionary, here a parameter.\<close>

fun topics_loop :: "(string \<times> regex list) list \<Rightarrow> string \<Rightarrow> string list" where
  "topics_loop [] text = []"
| "topics_loop ((topic, pats) # items) text =
     (if variant_hit pats text then topic # topics_loop items text
      else topics_loop items text)"

definition detect_topics :: "string \<Rightarrow> string list" where
  "detect_topics text = sorted_list_of_set (set (topics_loop TOPIC_KEYWORDS text))"

text \<open>The dictionary that \<open>build_response\<close> returns.\<close>

record response =
  urgency :: string
  urgency_color :: string
  emergency_hits :: "string list"
  urgent_hits :: "string list"
  topics :: "string list"
  mentions_meds :: bool
  suggestions :: "string list"
  tracking :: "string list"
  clinician_msg :: string

text \<open>
  \<open>build_response\<close>, statement by statement: the list \<open>suggestions\<close> is threaded
  through the conditional appends as \<open>s0\<close>, ..., \<open>s12\<close>. A list is true in a
  condition when it is not empty; the slice \<open>[:400]\<close> is \<open>take 400\<close>.
\<close>

definition build_response :: "string \<Rightarrow> response" where
  "build_response user_text =
    (let t = normalize_text user_text;
         e_hits = find_matches EMERGENCY_PATTERNS t;
         u_hits = find_matches URGENT_PATTERNS t;
         tps = detect_topics t;
         meds = re_search MEDICATION_MENTION t;
         (urg, color) =
           (if e_hits \<noteq> [] then (''EMERGENCY '' @ mdash @ '' act now'', ''red'')
            else if u_hits \<noteq> [] then (''URGENT '' @ mdash @ '' contact a clinician soon'', ''orange'')
            else (''NON-URGENT '' @ mdash @ '' supportive steps & monitoring'', ''green''));
         s0 = [];
         s1 = (if e_hits \<noteq> [] then s0 @ [
            ''**Call your local emergency number now** (e.g., 911 in the U.S.).'',
            ''If it'' @ rsquo @ ''s safe, stay with the person and keep them comfortable until help arrives.'',
            ''If you can, note **when symptoms started** and any key history to share with responders.'']
           else s0);
         s2 = (if u_hits \<noteq> [] \<and> \<not> e_hits \<noteq> [] then s1 @ [
            ''Consider calling a licensed clinician/nurse line **today** for guidance, especially if symptoms are new or worsening.'',
            ''If there was a **fall/head impact**, monitor closely and seek professional guidance'' @ mdash @ ''especially for new symptoms.'']
           else s1);
         s3 = (if meds then s2 @ [
            ''**Medication note:** This app cannot advise on medicines. **Do not start/stop/change doses** based on this tool. Contact a **pharmacist or prescriber** for medication questions or side effects.'']
           else s2);
         s4 = (if ''agitation_or_anxiety'' \<in> set tps then s3 @ [
            ''**Agitation/anxiety support (general):**'',
            ''- Reduce stimulation (lower noise/light), offer calm reassurance, and keep your voice steady.'',
            ''- Check basic needs: hunger, thirst, toileting, temperature comfort.'',
            ''- Try a simple grounding activity: slow breathing together, familiar music, short walk if safe.'']
           else s3);
         s5 = (if ''sleep'' \<in> set tps then s4 @ [
            ''**Sleep support (general):**'',
            ''- Keep a consistent routine (wake time, light exposure in the morning).'',
            ''- Limit caffeine late in the day and reduce screen/light at night.'',
            ''- If sudden major sleep changes occur, consider discussing with a clinician.'']
           else s4);
         s6 = (if ''pain'' \<in> set tps then s5 @ [
            ''**Pain support (general):**'',
            ''- Ask where it hurts and what makes it better/worse; note severity and timing.'',
            ''- Use comfort measures (rest, positioning, gentle heat/cold if appropriate and safe).'',
            ''- New or severe pain warrants professional guidance.'']
           else s5);
         s7 = (if ''memory_or_confusion'' \<in> set tps then s6 @ [
            ''**Confusion/memory changes (general):**'',
            ''- Use simple, reassuring cues; avoid arguing; offer one step at a time.'',
            ''- Note if confusion is **new/sudden**'' @ mdash @ ''that can be urgent and worth clinician input.'']
           else s6);
         s8 = (if ''eating_drinking'' \<in> set tps then s7 @ [
            ''**Eating/drinking support (general):**'',
            ''- Offer small sips/snacks more frequently and make food easy to chew/swallow.'',
            ''- Watch for dehydration signs (very dark urine, dizziness, very dry mouth) and seek guidance if concerned.'']
           else s7);
         s9 = (if ''safety'' \<in> set tps then s8 @ [
            ''**Safety support (general):**'',
            ''- Reduce fall risks (clear pathways, good lighting, assistive devices if already used).'',
            ''- If wandering risk: consider supervision, door alarms, ID bracelet, and a plan for if they leave.'']
           else s8);
         s10 = (if ''mood'' \<in> set tps then s9 @ [
            ''**Mood support (general):**'',
            ''- Listen and validate feelings; try gentle structure and social connection if welcome.'',
            ''- If you notice any self-harm language or intent, treat it as urgent and seek immediate help.'']
           else s9);
         s11 = (if ''caregiver_stress'' \<in> set tps then s10 @ [
            ''**Caregiver support (you matter too):**'',
            ''- If possible, take a short break (even 5'' @ ndash @ ''10 minutes) and hydrate/eat.'',
            ''- Ask someone specific for help (e.g., '' @ ldquo @ ''Can you sit with them for 30 minutes today?'' @ rdquo @ '').'',
            ''- Consider local respite, caregiver groups, or talking with a clinician/therapist for support.'']
           else s10);
         s12 = s11 @ [''---'', ''**Helpful next steps (general):**'']
                   @ map (\<lambda>x. ''- '' @ x) GENERAL_STEPS;
         trk = [
            ''- When it started / how it changed over time'',
            ''- Triggers (time of day, meals, new stressors, activity)'',
            ''- What helped (calm environment, hydration, rest, distraction)'',
            ''- Sleep, food, fluids, toileting changes'',
            ''- Any new safety risks (falls, wandering, choking)''];
         msg = ''Hello, I'' @ rsquo @ ''m caring for someone and I'' @ rsquo @ ''m concerned about the following:'' @ nl
            @ nl
            @ ''- What happened: '' @ take 400 (strip user_text) @ nl
            @ ''- When it started / timeline:'' @ nl
            @ ''- Severity (mild/moderate/severe) and what has changed:'' @ nl
            @ ''- What we tried and what helped:'' @ nl
            @ ''- Any safety concerns (falls, breathing, confusion, etc.):'' @ nl
            @ nl
            @ ''Could you advise on next steps and whether we should be seen urgently?'' @ nl
     in \<lparr> urgency = urg,
          urgency_color = color,
          emergency_hits = e_hits,
          urgent_hits = u_hits,
          topics = tps,
          mentions_meds = meds,
          suggestions = s12,
          tracking = trk,
          clinician_msg = msg \<rparr>)"

subsection \<open>The handler of the button and the export\<close>

text \<open>
  The list \<open>export_text\<close> that the handler builds once it has a result, and the text
  offered for download, \<open>"\n".join(export_text)\<close>. The time stamp
  \<open>datetime.now().isoformat(timespec='seconds')\<close> is the parameter \<open>now\<close>.
\<close>

definition export_text :: "string \<Rightarrow> string \<Rightarrow> response \<Rightarrow> string list" where
  "export_text user_text now result =
     [''Caregiver Support (Rule-Based Demo) '' @ mdash @ '' Export'',
      ''Generated: '' @ now,
      '''',
      ''USER INPUT:'',
      strip user_text,
      '''',
      ''URGENCY: '' @ urgency result]
     @ (if emergency_hits result \<noteq> []
        then [''EMERGENCY FLAGS: '' @ join '', '' (emergency_hits result)] else [])
     @ (if urgent_hits result \<noteq> []
        then [''URGENT FLAGS: '' @ join '', '' (urgent_hits result)] else [])
     @ (if topics result \<noteq> []
        then [''TOPICS: '' @ join '', '' (topics result)] else [])
     @ ['''', ''SUGGESTIONS:'']
     @ map (\<lambda>item. ''- '' @ item) (filter (\<lambda>item. item \<noteq> ''---'') (suggestions result))
     @ ['''', ''TRACKING CHECKLIST:'']
     @ tracking result
     @ ['''', ''CLINICIAN MESSAGE TEMPLATE:'', clinician_msg result]"

definition export_data :: "string \<Rightarrow> string \<Rightarrow> response \<Rightarrow> string" where
  "export_data user_text now result = join nl (export_text user_text now result)"

text \<open>
  What a press on the button gives: the warning and nothing else when the stripped text
  is empty, otherwise the result of \<open>build_response\<close> together with the export text.
\<close>

datatype outcome = Warning string | Generated response string


subsection \<open>The parts of the clinician message\<close>



subsection \<open>The blocks of the suggestion list\<close>

text \<open>
  The blocks that the specification names for the suggestion list, each with the lines
  that the source appends for it. \<open>build_response\<close> above does not use them: the
  theorems compare the list that it builds with these blocks.
\<close>

definition emergency_lines :: "string list" where
  "emergency_lines = [
     ''**Call your local emergency number now** (e.g., 911 in the U.S.).'',
     ''If it'' @ rsquo @ ''s safe, stay with the person and keep them comfortable until help arrives.'',
     ''If you can, note **when symptoms started** and any key history to share with responders.'']"

definition urgent_lines :: "string list" where
  "urgent_lines = [
     ''Consider calling a licensed clinician/nurse line **today** for guidance, especially if symptoms are new or worsening.'',
     ''If there was a **fall/head impact**, monitor closely and seek professional guidance'' @ mdash @ ''especially for new symptoms.'']"

definition medication_line :: string where
  "medication_line = ''**Medication note:** This app cannot advise on medicines. **Do not start/stop/change doses** based on this tool. Contact a **pharmacist or prescriber** for medication questions or side effects.''"

definition agitation_lines :: "string list" where
  "agitation_lines = [
     ''**Agitation/anxiety support (general):**'',
     ''- Reduce stimulation (lower noise/light), offer calm reassurance, and keep your voice steady.'',
     ''- Check basic needs: hunger, thirst, toileting, temperature comfort.'',
     ''- Try a simple grounding activity: slow breathing together, familiar music, short walk if safe.'']"

definition sleep_lines :: "string list" where
  "sleep_lines = [
     ''**Sleep support (general):**'',
     ''- Keep a consistent routine (wake time, light exposure in the morning).'',
     ''- Limit caffeine late in the day and reduce screen/light at night.'',
     ''- If sudden major sleep changes occur, consider discussing with a clinician.'']"

definition pain_lines :: "string list" where
  "pain_lines = [
     ''**Pain support (general):**'',
     ''- Ask where it hurts and what makes it better/worse; note severity and timing.'',
     ''- Use comfort measures (rest, positioning, gentle heat/cold if appropriate and safe).'',
     ''- New or severe pain warrants professional guidance.'']"

definition confusion_lines :: "string list" where
  "confusion_lines = [
     ''**Confusion/memory changes (general):**'',
     ''- Use simple, reassuring cues; avoid arguing; offer one step at a time.'',
     ''- Note if confusion is **new/sudden**'' @ mdash @ ''that can be urgent and worth clinician input.'']"

definition eating_lines :: "string list" where
  "eating_lines = [
     ''**Eating/drinking support (general):**'',
     ''- Offer small sips/snacks more frequently and make food easy to chew/swallow.'',
     ''- Watch for dehydration signs (very dark urine, dizziness, very dry mouth) and seek guidance if concerned.'']"

definition safety_lines :: "string list" where
  "safety_lines = [
     ''**Safety support (general):**'',
     ''- Reduce fall risks (clear pathways, good lighting, assistive devices if already used).'',
     ''- If wandering risk: consider supervision, door alarms, ID bracelet, and a plan for if they leave.'']"

definition mood_lines :: "string list" where
  "mood_lines = [
     ''**Mood support (general):**'',
     ''- Listen and validate feelings; try gentle structure and social connection if welcome.'',
     ''- If you notice any self-harm language or intent, treat it as urgent and seek immediate help.'']"

definition caregiver_lines :: "string list" where
  "caregiver_lines = [
     ''**Caregiver support (you matter too):**'',
     ''- If possible, take a short break (even 5'' @ ndash @ ''10 minutes) and hydrate/eat.'',
     ''- Ask someone specific for help (e.g., '' @ ldquo @ ''Can you sit with them for 30 minutes today?'' @ rdquo @ '').'',
     ''- Consider local respite, caregiver groups, or talking with a clinician/therapist for support.'']"

text \<open>The block of a topic, by its name.\<close>

definition topic_block :: "string \<Rightarrow> string list" where
  "topic_block topic =
    (if topic = ''agitation_or_anxiety'' then agitation_lines
     else if topic = ''sleep'' then sleep_lines
     else if topic = ''pain'' then pain_lines
     else if topic = ''memory_or_confusion'' then confusion_lines
     else if topic = ''eating_drinking'' then eating_lines
     else if topic = ''safety'' then safety_lines
     else if topic = ''mood'' then mood_lines
     else if topic = ''caregiver_stress'' then caregiver_lines
     else [])"

text \<open>The block of a topic when the topic is among those detected, nothing otherwise.\<close>

definition block_of :: "string list \<Rightarrow> string \<Rightarrow> string list" where
  "block_of tps topic = (if topic \<in> set tps then topic_block topic else [])"

text \<open>The divider, the header of the general steps and the steps as bullets.\<close>

definition general_lines :: "string list" where
  "general_lines = [''---'', ''**Helpful next steps (general):**''] @ map (\<lambda>x. ''- '' @ x) GENERAL_STEPS"

subsection \<open>The first scenario of the specification\<close>

definition scenario1 :: string where
  "scenario1 = ''Mom fell yesterday and seems more confused today. She won't eat much and is agitated in the evening.''"

section \<open>Properties\<close>

subsection \<open>Auxiliary facts\<close>






lemma find_matches_nonempty:
  "find_matches ps t \<noteq> [] \<longleftrightarrow> (\<exists>(p, l) \<in> set ps. re_search p t)"
  by (induction ps t rule: find_matches.induct) auto

lemma br_emergency_hits:
  "emergency_hits (build_response u) = find_matches EMERGENCY_PATTERNS (normalize_text u)"
  by (simp add: build_response_def Let_def split_def)

lemma br_urgent_hits:
  "urgent_hits (build_response u) = find_matches URGENT_PATTERNS (normalize_text u)"
  by (simp add: build_response_def Let_def split_def)

lemma br_topics: "topics (build_response u) = detect_topics (normalize_text u)"
  by (simp add: build_response_def Let_def split_def)

lemma br_mentions_meds:
  "mentions_meds (build_response u) = re_search MEDICATION_MENTION (normalize_text u)"
  by (simp add: build_response_def Let_def split_def)

lemma br_urgency:
  "urgency (build_response u) =
     (if find_matches EMERGENCY_PATTERNS (normalize_text u) \<noteq> []
        then ''EMERGENCY '' @ mdash @ '' act now''
      else if find_matches URGENT_PATTERNS (normalize_text u) \<noteq> []
        then ''URGENT '' @ mdash @ '' contact a clinician soon''
      else ''NON-URGENT '' @ mdash @ '' supportive steps & monitoring'')"
  by (simp add: build_response_def Let_def split_def)








lemma sublist_join: "x \<in> set xs \<Longrightarrow> sublist x (join sep xs)"
proof (induction sep xs rule: join.induct)
  case (3 sep x' y ys)
  show ?case
  proof (cases "x = x'")
    case True
    then show ?thesis by simp
  next
    case False
    with 3 have "sublist x (join sep (y # ys))" by simp
    then obtain ps ss where "join sep (y # ys) = ps @ x @ ss"
      by (auto simp: sublist_def)
    then have "join sep (x' # y # ys) = (x' @ sep @ ps) @ x @ ss" by simp
    then show ?thesis unfolding sublist_def by blast
  qed
qed simp_all

lemma if_append_same: "(if c then s @ b else s) = s @ (if c then b else [])"
  by simp

lemma topic_block_simps:
  "topic_block ''agitation_or_anxiety'' = agitation_lines"
  "topic_block ''sleep'' = sleep_lines"
  "topic_block ''pain'' = pain_lines"
  "topic_block ''memory_or_confusion'' = confusion_lines"
  "topic_block ''eating_drinking'' = eating_lines"
  "topic_block ''safety'' = safety_lines"
  "topic_block ''mood'' = mood_lines"
  "topic_block ''caregiver_stress'' = caregiver_lines"
  by (simp_all add: topic_block_def)

lemma br_suggestions:
  "suggestions (build_response u) =
     (if find_matches EMERGENCY_PATTERNS (normalize_text u) \<noteq> [] then emergency_lines else [])
     @ (if find_matches URGENT_PATTERNS (normalize_text u) \<noteq> []
           \<and> \<not> find_matches EMERGENCY_PATTERNS (normalize_text u) \<noteq> [] then urgent_lines else [])
     @ (if re_search MEDICATION_MENTION (normalize_text u) then [medication_line] else [])
     @ block_of (detect_topics (normalize_text u)) ''agitation_or_anxiety''
     @ block_of (detect_topics (normalize_text u)) ''sleep''
     @ block_of (detect_topics (normalize_text u)) ''pain''
     @ block_of (detect_topics (normalize_text u)) ''memory_or_confusion''
     @ block_of (detect_topics (normalize_text u)) ''eating_drinking''
     @ block_of (detect_topics (normalize_text u)) ''safety''
     @ block_of (detect_topics (normalize_text u)) ''mood''
     @ block_of (detect_topics (normalize_text u)) ''caregiver_stress''
     @ general_lines"
  apply (simp only: build_response_def Let_def split_def if_append_same append_Nil
      response.select_convs)
  apply (simp only: append_assoc)
  apply (simp only: block_of_def topic_block_simps emergency_lines_def urgent_lines_def
      medication_line_def general_lines_def agitation_lines_def sleep_lines_def pain_lines_def confusion_lines_def eating_lines_def safety_lines_def mood_lines_def caregiver_lines_def)
  done


lemma urgency_emergency_iff:
  "urgency (build_response u) = ''EMERGENCY '' @ mdash @ '' act now''
     \<longleftrightarrow> find_matches EMERGENCY_PATTERNS (normalize_text u) \<noteq> []"
  unfolding br_urgency by simp


lemma general_lines_length: "length general_lines = 6"
  by (simp add: general_lines_def GENERAL_STEPS_def)

lemma medication_line_elsewhere:
  "medication_line \<notin> set emergency_lines"
  "medication_line \<notin> set urgent_lines"
  "medication_line \<notin> set (block_of tps topic)"
  "medication_line \<notin> set general_lines"
  by (simp_all add: medication_line_def emergency_lines_def urgent_lines_def block_of_def
      topic_block_def agitation_lines_def sleep_lines_def pain_lines_def confusion_lines_def
      eating_lines_def safety_lines_def mood_lines_def caregiver_lines_def general_lines_def
      GENERAL_STEPS_def)

lemma divider_elsewhere:
  "''---'' \<notin> set emergency_lines"
  "''---'' \<notin> set urgent_lines"
  "''---'' \<noteq> medication_line"
  "''---'' \<notin> set (block_of tps topic)"
  "''---'' \<notin> set (map (\<lambda>x. ''- '' @ x) GENERAL_STEPS)"
  by (simp_all add: medication_line_def emergency_lines_def urgent_lines_def block_of_def
      topic_block_def agitation_lines_def sleep_lines_def pain_lines_def confusion_lines_def
      eating_lines_def safety_lines_def mood_lines_def caregiver_lines_def
      GENERAL_STEPS_def)

lemma medication_line_iff:
  "medication_line \<in> set (suggestions (build_response u))
     \<longleftrightarrow> re_search MEDICATION_MENTION (normalize_text u)"
  by (simp add: br_suggestions medication_line_elsewhere)

lemma pill_emergency:
  "find_matches EMERGENCY_PATTERNS (normalize_text ''Chest pain after her evening pill'') \<noteq> []"
  "re_search MEDICATION_MENTION (normalize_text ''Chest pain after her evening pill'')"
  by code_simp+

lemma suggestions_split:
  "\<exists>pre. suggestions (build_response u)
       = pre @ [''---'', ''**Helpful next steps (general):**'']
             @ map (\<lambda>x. ''- '' @ x) GENERAL_STEPS
     \<and> ''---'' \<notin> set pre"
proof -
  let ?E = "if find_matches EMERGENCY_PATTERNS (normalize_text u) \<noteq> [] then emergency_lines else []"
  let ?U = "if find_matches URGENT_PATTERNS (normalize_text u) \<noteq> []
           \<and> \<not> find_matches EMERGENCY_PATTERNS (normalize_text u) \<noteq> [] then urgent_lines else []"
  let ?M = "if re_search MEDICATION_MENTION (normalize_text u) then [medication_line] else []"
  let ?T = "block_of (detect_topics (normalize_text u)) ''agitation_or_anxiety''
     @ block_of (detect_topics (normalize_text u)) ''sleep''
     @ block_of (detect_topics (normalize_text u)) ''pain''
     @ block_of (detect_topics (normalize_text u)) ''memory_or_confusion''
     @ block_of (detect_topics (normalize_text u)) ''eating_drinking''
     @ block_of (detect_topics (normalize_text u)) ''safety''
     @ block_of (detect_topics (normalize_text u)) ''mood''
     @ block_of (detect_topics (normalize_text u)) ''caregiver_stress''"
  have "suggestions (build_response u) = (?E @ ?U @ ?M @ ?T) @ general_lines"
    by (simp only: br_suggestions append_assoc)
  moreover have "''---'' \<notin> set ?E" "''---'' \<notin> set ?U" "''---'' \<notin> set ?M" "''---'' \<notin> set ?T"
    by (simp_all add: divider_elsewhere)
  then have "''---'' \<notin> set (?E @ ?U @ ?M @ ?T)"
    by (simp only: set_append Un_iff simp_thms not_False_eq_True)
  ultimately show ?thesis
    unfolding general_lines_def by blast
qed

lemma scenario1_matches:
  "find_matches EMERGENCY_PATTERNS (normalize_text scenario1) = []"
  "find_matches URGENT_PATTERNS (normalize_text scenario1) = [''Fall or head impact'']"
  "detect_topics (normalize_text scenario1)
     = [''agitation_or_anxiety'', ''eating_drinking'', ''memory_or_confusion'']"
  by code_simp+

subsection \<open>Urgency tier\<close>

text \<open>
  Claim C1. For every input text, the urgency of the response that \<open>build_response\<close>
  returns is the emergency label exactly when some emergency rule is found in the
  normalized text, the urgent label exactly when no emergency rule and some urgent rule
  is found, and the non-urgent label exactly when neither is; nothing else (topics,
  medication mention) has a part in it.
\<close>

theorem urgency_tier_by_precedence: "(urgency (build_response text) = ''EMERGENCY '' @ mdash @ '' act now''
      \<longleftrightarrow> (\<exists>(p, l) \<in> set EMERGENCY_PATTERNS. re_search p (normalize_text text)))
  \<and> (urgency (build_response text) = ''URGENT '' @ mdash @ '' contact a clinician soon''
      \<longleftrightarrow> \<not> (\<exists>(p, l) \<in> set EMERGENCY_PATTERNS. re_search p (normalize_text text))
          \<and> (\<exists>(p, l) \<in> set URGENT_PATTERNS. re_search p (normalize_text text)))
  \<and> (urgency (build_response text) = ''NON-URGENT '' @ mdash @ '' supportive steps & monitoring''
      \<longleftrightarrow> \<not> (\<exists>(p, l) \<in> set EMERGENCY_PATTERNS. re_search p (normalize_text text))
          \<and> \<not> (\<exists>(p, l) \<in> set URGENT_PATTERNS. re_search p (normalize_text text)))"
  unfolding br_urgency find_matches_nonempty [symmetric]
  by simp

subsection \<open>Empty input\<close>



subsection \<open>Case and outer white space\<close>



subsection \<open>Topic detection\<close>



subsection \<open>The clinician message\<close>



subsection \<open>The export\<close>

text \<open>
  Claim C3, as stated, fails: the export holds the stripped input, so the input
  \<open>"Zq "\<close> with its trailing space occurs nowhere in the exported text.
\<close>

theorem export_omits_outer_space:
  "\<not> sublist ''Zq '' (export_data ''Zq '' ''2024-01-01T00:00:00'' (build_response ''Zq ''))"
  by code_simp


text \<open>
  Claim C3, amended. For every input text, time stamp and response, the exported text
  contains the whole stripped input, of any length, as the line after \<open>USER INPUT:\<close>.
\<close>

theorem export_contains_stripped_input:
  "export_text user_text now result ! 4 = strip user_text
   \<and> sublist (strip user_text) (export_data user_text now result)"
proof -
  have "strip user_text \<in> set (export_text user_text now result)"
    by (simp add: export_text_def)
  then show ?thesis
    by (simp add: export_data_def sublist_join) (simp add: export_text_def)
qed

subsection \<open>The suggestion list\<close>


text \<open>
  Claim C5. For every input text, the medication line is among the suggestions exactly
  when the medication pattern is found in the normalized text, whatever the urgency; it
  is there for an input of emergency urgency that mentions a pill.
\<close>

theorem medication_line_iff_mentioned:
  "(medication_line \<in> set (suggestions (build_response text))
      \<longleftrightarrow> re_search MEDICATION_MENTION (normalize_text text))
   \<and> (medication_line \<in> set (suggestions (build_response text))
      \<longleftrightarrow> mentions_meds (build_response text))
   \<and> urgency (build_response ''Chest pain after her evening pill'')
        = ''EMERGENCY '' @ mdash @ '' act now''
   \<and> medication_line \<in> set (suggestions (build_response ''Chest pain after her evening pill''))"
  by (simp only: medication_line_iff br_mentions_meds urgency_emergency_iff pill_emergency
      simp_thms)

text \<open>
  Claim C10. For every input text, the divider \<open>---\<close> occurs exactly once in the
  suggestion list, directly before the header of the general steps, and the list has at
  least six elements.
\<close>

theorem divider_exactly_once:
  "count_list (suggestions (build_response text)) ''---'' = 1
   \<and> (\<exists>pre. suggestions (build_response text)
            = pre @ [''---'', ''**Helpful next steps (general):**'']
                  @ map (\<lambda>x. ''- '' @ x) GENERAL_STEPS
          \<and> ''---'' \<notin> set pre
          \<and> ''---'' \<notin> set (map (\<lambda>x. ''- '' @ x) GENERAL_STEPS))
   \<and> 6 \<le> length (suggestions (build_response text))"
proof -
  obtain pre where pre: "suggestions (build_response text)
       = pre @ [''---'', ''**Helpful next steps (general):**'']
             @ map (\<lambda>x. ''- '' @ x) GENERAL_STEPS"
     and no: "''---'' \<notin> set pre"
    using suggestions_split by blast
  have g: "''---'' \<notin> set (map (\<lambda>x. ''- '' @ x) GENERAL_STEPS)"
    by (rule divider_elsewhere)
  from no g have "count_list pre ''---'' = 0"
      "count_list (map (\<lambda>x. ''- '' @ x) GENERAL_STEPS) ''---'' = 0"
    by (simp_all only: count_list_0_iff not_False_eq_True)
  then have "count_list (suggestions (build_response text)) ''---'' = 1"
    unfolding pre by (simp only: count_list_append count_list.simps) simp
  moreover have "6 \<le> length (suggestions (build_response text))"
    unfolding pre by (simp add: GENERAL_STEPS_def)
  ultimately show ?thesis using pre no g by blast
qed

subsection \<open>The first scenario\<close>

text \<open>
  Claim C2, as stated, fails: the text of the scenario holds the word \<open>fell\<close>, which the
  urgent pattern for falls finds, so the urgency is not the non-urgent one.
\<close>

theorem scenario1_not_non_urgent:
  "urgency (build_response scenario1) \<noteq> ''NON-URGENT '' @ mdash @ '' supportive steps & monitoring''"
  by (simp add: br_urgency scenario1_matches)

text \<open>
  Claim C2, amended. For the text of the scenario, the topics include
  memory_or_confusion, eating_drinking and agitation_or_anxiety, no emergency rule is
  found, the urgent rule "Fall or head impact" is, and the urgency is the urgent one.
\<close>

theorem scenario1_topics_and_urgent:
  "''memory_or_confusion'' \<in> set (topics (build_response scenario1))
   \<and> ''eating_drinking'' \<in> set (topics (build_response scenario1))
   \<and> ''agitation_or_anxiety'' \<in> set (topics (build_response scenario1))
   \<and> emergency_hits (build_response scenario1) = []
   \<and> urgent_hits (build_response scenario1) = [''Fall or head impact'']
   \<and> urgency (build_response scenario1) = ''URGENT '' @ mdash @ '' contact a clinician soon''"
  by (simp add: br_urgency br_topics br_emergency_hits br_urgent_hits scenario1_matches)

end
